theory Spec2Isabelle
  imports Main
begin

section \<open>authentication/models.py: the role of a user and the user's groups\<close>

text \<open>
  A \<^verbatim>\<open>User\<close> has a nullable foreign key \<^verbatim>\<open>role\<close> to \<^verbatim>\<open>auth_group\<close> and the
  many-to-many relation \<^verbatim>\<open>groups\<close>. Three signal receivers keep them in step:
  \<^verbatim>\<open>_remember_desired_role\<close> (pre_save), \<^verbatim>\<open>_sync_role_to_groups\<close> (post_save) and
  \<^verbatim>\<open>_sync_groups_to_role\<close> (m2m_changed).

  The receivers read the Python object they are handed (\<^verbatim>\<open>instance.role_id\<close>,
  \<^verbatim>\<open>instance._desired_role_id\<close>) and write the database
  (\<^verbatim>\<open>instance.groups.set\<close>, \<^verbatim>\<open>User.objects.filter(pk=instance.pk).update(role=...)\<close>), and a
  queryset \<^verbatim>\<open>update\<close> writes the stored row only: it changes no attribute of a Python object
  that was loaded earlier. The state of one user is therefore the pair of both: the two
  attributes of the object in memory, and the stored row with its membership rows.
\<close>

type_synonym group_id = nat

record user_state =
  role_id :: "group_id option"
    \<comment> \<open>\<^verbatim>\<open>instance.role_id\<close>, the attribute of the object in memory\<close>
  desired_role_id :: "group_id option option"
    \<comment> \<open>\<^verbatim>\<open>instance._desired_role_id\<close>; the outer \<open>None\<close> is "no such attribute"\<close>
  db_role :: "group_id option"
    \<comment> \<open>column \<^verbatim>\<open>role_id\<close> of the stored row\<close>
  db_groups :: "group_id set"
    \<comment> \<open>the stored rows of \<^verbatim>\<open>User.groups.through\<close> of this user\<close>

text \<open>The actions of Django's \<^verbatim>\<open>m2m_changed\<close> signal.\<close>

datatype m2m_action = pre_add | post_add | pre_remove | post_remove | pre_clear | post_clear

text \<open>
  \<^verbatim>\<open>pk_set\<close> is a Python set, and \<^verbatim>\<open>next(iter(pk_set), None)\<close> takes the element the set's
  iterator yields first. Which one that is depends on the hash table of the set, so the order
  of iteration is a parameter of the model: \<open>it S\<close> lists the elements of \<open>S\<close> as the
  iterator yields them. Ascending order, \<open>sorted_list_of_set\<close>, is the instance used for
  concrete runs; on a set of one element every iterator agrees with it.
\<close>

type_synonym set_iter = "group_id set \<Rightarrow> group_id list"

definition next_iter :: "set_iter \<Rightarrow> group_id set \<Rightarrow> group_id option" where
  "next_iter it S = (case it S of [] \<Rightarrow> None | x # _ \<Rightarrow> Some x)"

text \<open>\<^verbatim>\<open>instance.groups.order_by("pk").values_list("pk", flat=True).first()\<close>\<close>

definition first_group :: "group_id set \<Rightarrow> group_id option" where
  "first_group G = (if G = {} then None else Some (Min G))"

text \<open>
  \<^verbatim>\<open>User.objects.filter(pk=instance.pk).update(role=new_role_id)\<close>: one SQL UPDATE of the
  stored row. A queryset update sends neither \<^verbatim>\<open>pre_save\<close> nor \<^verbatim>\<open>post_save\<close> and leaves
  the object in memory as it is.
\<close>

definition qs_update_role :: "group_id option \<Rightarrow> user_state \<Rightarrow> user_state" where
  "qs_update_role v s = s\<lparr>db_role := v\<rparr>"

text \<open>
  \<^verbatim>\<open>new_role_id = (next(iter(pk_set), None) if pk_set else instance.groups...first())\<close>.
  \<^verbatim>\<open>pk_set\<close> is \<^verbatim>\<open>None\<close> for the clear actions; \<^verbatim>\<open>None\<close> and the empty set are both falsy.
\<close>

definition new_role_id :: "set_iter \<Rightarrow> group_id set option \<Rightarrow> user_state \<Rightarrow> group_id option" where
  "new_role_id it pk_set s =
     (case pk_set of
        None \<Rightarrow> first_group (db_groups s)
      | Some S \<Rightarrow> if S \<noteq> {} then next_iter it S else first_group (db_groups s))"

definition listened :: "m2m_action \<Rightarrow> bool" where
  "listened action = (action = post_add \<or> action = post_remove \<or> action = post_clear)"

text \<open>The receiver \<^verbatim>\<open>_sync_groups_to_role\<close> of \<^verbatim>\<open>m2m_changed\<close>.\<close>

definition sync_groups_to_role ::
  "set_iter \<Rightarrow> m2m_action \<Rightarrow> group_id set option \<Rightarrow> user_state \<Rightarrow> user_state" where
  "sync_groups_to_role it action pk_set s =
     (if \<not> listened action then s
      else if role_id s \<noteq> new_role_id it pk_set s
           then qs_update_role (new_role_id it pk_set s) s
           else s)"

text \<open>
  The related manager \<^verbatim>\<open>instance.groups\<close> (Django's \<^verbatim>\<open>ManyRelatedManager\<close>, with its
  \<^verbatim>\<open>_remove_items\<close>, \<^verbatim>\<open>_add_items\<close>, \<^verbatim>\<open>clear\<close> and \<^verbatim>\<open>set\<close>). \<^verbatim>\<open>remove\<close> and \<^verbatim>\<open>add\<close>
  reduce their arguments to a set of primary keys and return at once when they are given none.
  Otherwise an operation sends \<^verbatim>\<open>m2m_changed\<close> to the receivers, with the object it was
  called on as \<^verbatim>\<open>instance\<close>, before and after it touches the membership rows. (With a
  receiver connected, \<^verbatim>\<open>add\<close> cannot take Django's signal-free fast path.)
  \<^item> \<^verbatim>\<open>remove\<close> hands its receivers the keys it was given, members or not;
  \<^item> \<^verbatim>\<open>add\<close> hands them the keys that were not members yet;
  \<^item> \<^verbatim>\<open>clear\<close> hands them \<^verbatim>\<open>pk_set=None\<close>.
\<close>

definition groups_remove :: "set_iter \<Rightarrow> group_id set \<Rightarrow> user_state \<Rightarrow> user_state" where
  "groups_remove it objs s =
     (if objs = {} then s
      else let s1 = sync_groups_to_role it pre_remove (Some objs) s;
               s2 = s1\<lparr>db_groups := db_groups s1 - objs\<rparr>
           in sync_groups_to_role it post_remove (Some objs) s2)"

definition groups_add :: "set_iter \<Rightarrow> group_id set \<Rightarrow> user_state \<Rightarrow> user_state" where
  "groups_add it objs s =
     (if objs = {} then s
      else let missing = objs - db_groups s;
               s1 = sync_groups_to_role it pre_add (Some missing) s;
               s2 = s1\<lparr>db_groups := db_groups s1 \<union> missing\<rparr>
           in sync_groups_to_role it post_add (Some missing) s2)"

definition groups_clear :: "set_iter \<Rightarrow> user_state \<Rightarrow> user_state" where
  "groups_clear it s =
     (let s1 = sync_groups_to_role it pre_clear None s;
          s2 = s1\<lparr>db_groups := {}\<rparr>
      in sync_groups_to_role it post_clear None s2)"

text \<open>
  \<^verbatim>\<open>set(objs)\<close> without \<^verbatim>\<open>clear=True\<close>: the loop strikes each given key off the stored ones
  (\<^verbatim>\<open>old_ids\<close>) or queues it (\<^verbatim>\<open>new_objs\<close>); then \<^verbatim>\<open>self.remove(*old_ids)\<close> and
  \<^verbatim>\<open>self.add(*new_objs)\<close>.
\<close>

fun set_split ::
  "group_id list \<Rightarrow> group_id set \<Rightarrow> group_id list \<Rightarrow> group_id set \<times> group_id list" where
  "set_split [] old_ids new_objs = (old_ids, new_objs)"
| "set_split (obj # objs) old_ids new_objs =
     (if obj \<in> old_ids then set_split objs (old_ids - {obj}) new_objs
      else set_split objs old_ids (new_objs @ [obj]))"

definition groups_set :: "set_iter \<Rightarrow> group_id list \<Rightarrow> user_state \<Rightarrow> user_state" where
  "groups_set it objs s =
     (case set_split objs (db_groups s) [] of
        (old_ids, new_objs) \<Rightarrow> groups_add it (set new_objs) (groups_remove it old_ids s))"

text \<open>The receiver \<^verbatim>\<open>_remember_desired_role\<close> of \<^verbatim>\<open>pre_save\<close>.\<close>

definition remember_desired_role :: "user_state \<Rightarrow> user_state" where
  "remember_desired_role s = s\<lparr>desired_role_id := Some (role_id s)\<rparr>"

text \<open>
  The receiver \<^verbatim>\<open>_sync_role_to_groups\<close> of \<^verbatim>\<open>post_save\<close>.
  \<^verbatim>\<open>getattr(instance, "_desired_role_id", None)\<close> is \<^verbatim>\<open>None\<close> both when the attribute is
  missing and when it holds \<^verbatim>\<open>None\<close>; the receiver returns on either. \<^verbatim>\<open>[rid] if rid else []\<close>
  is the empty list for the falsy key 0.
\<close>

definition getattr_desired :: "user_state \<Rightarrow> group_id option" where
  "getattr_desired s = (case desired_role_id s of None \<Rightarrow> None | Some v \<Rightarrow> v)"

definition sync_role_to_groups :: "set_iter \<Rightarrow> user_state \<Rightarrow> user_state" where
  "sync_role_to_groups it s =
     (case getattr_desired s of
        None \<Rightarrow> s
      | Some rid \<Rightarrow>
          (groups_set it (if rid \<noteq> 0 then [rid] else []) s)\<lparr>desired_role_id := None\<rparr>)"

text \<open>
  \<^verbatim>\<open>instance.save()\<close>: \<^verbatim>\<open>pre_save\<close>, the row written with the object's fields,
  \<^verbatim>\<open>post_save\<close>. (\<^verbatim>\<open>User\<close> has no \<^verbatim>\<open>save\<close> of its own.)
\<close>

definition write_row :: "user_state \<Rightarrow> user_state" where
  "write_row s = s\<lparr>db_role := role_id s\<rparr>"

definition save :: "set_iter \<Rightarrow> user_state \<Rightarrow> user_state" where
  "save it s = sync_role_to_groups it (write_row (remember_desired_role s))"

text \<open>A user just created, with no role and no group, and the assignment \<^verbatim>\<open>user.role_id = r\<close>.\<close>

definition new_user :: user_state where
  "new_user = \<lparr>role_id = None, desired_role_id = None, db_role = None, db_groups = {}\<rparr>"

definition assign_role :: "group_id option \<Rightarrow> user_state \<Rightarrow> user_state" where
  "assign_role r s = s\<lparr>role_id := r\<rparr>"

text \<open>
  A freshly loaded object agrees with the stored row (\<^verbatim>\<open>User.objects.get(pk=...)\<close>,
  \<^verbatim>\<open>refresh_from_db()\<close>).
\<close>

definition refresh_from_db :: "user_state \<Rightarrow> user_state" where
  "refresh_from_db s = s\<lparr>role_id := db_role s\<rparr>"

text \<open>The invariant of the stored state: the role is null or one of the groups.\<close>

definition role_in_groups :: "user_state \<Rightarrow> bool" where
  "role_in_groups s = (case db_role s of None \<Rightarrow> True | Some r \<Rightarrow> r \<in> db_groups s)"

subsection \<open>Signal dispatch as nested calls\<close>

text \<open>
  Django delivers a signal by calling the receivers at once, inside the operation that sends
  it, so an operation, the receivers it reaches and the operations those call form a chain
  of nested calls. \<open>run\<close> follows that chain with a bound \<open>n\<close> on its depth and gives
  \<open>None\<close> when the bound is used up. A receiver that saved the user again would make the
  chain endless; what the receivers of this file call is written out here call by call.
\<close>

datatype call =
    Save
  | GroupsSet "group_id list"
  | GroupsAdd "group_id set"
  | GroupsRemove "group_id set"
  | GroupsClear
  | QsUpdateRole "group_id option"
  | PreSave
  | PostSave
  | M2mChanged m2m_action "group_id set option"

fun run :: "set_iter \<Rightarrow> nat \<Rightarrow> call \<Rightarrow> user_state \<Rightarrow> user_state option" where
  "run it 0 c s = None"
| "run it (Suc n) (QsUpdateRole v) s = Some (s\<lparr>db_role := v\<rparr>)"
| "run it (Suc n) (M2mChanged action pk_set) s =
     (if \<not> listened action then Some s
      else if role_id s \<noteq> new_role_id it pk_set s
           then run it n (QsUpdateRole (new_role_id it pk_set s)) s
           else Some s)"
| "run it (Suc n) (GroupsRemove objs) s =
     (if objs = {} then Some s
      else Option.bind (run it n (M2mChanged pre_remove (Some objs)) s)
             (\<lambda>s1. run it n (M2mChanged post_remove (Some objs))
                     (s1\<lparr>db_groups := db_groups s1 - objs\<rparr>)))"
| "run it (Suc n) (GroupsAdd objs) s =
     (if objs = {} then Some s
      else Option.bind (run it n (M2mChanged pre_add (Some (objs - db_groups s))) s)
             (\<lambda>s1. run it n (M2mChanged post_add (Some (objs - db_groups s)))
                     (s1\<lparr>db_groups := db_groups s1 \<union> (objs - db_groups s)\<rparr>)))"
| "run it (Suc n) GroupsClear s =
     Option.bind (run it n (M2mChanged pre_clear None) s)
       (\<lambda>s1. run it n (M2mChanged post_clear None) (s1\<lparr>db_groups := {}\<rparr>))"
| "run it (Suc n) (GroupsSet objs) s =
     (case set_split objs (db_groups s) [] of
        (old_ids, new_objs) \<Rightarrow>
          Option.bind (run it n (GroupsRemove old_ids) s) (run it n (GroupsAdd (set new_objs))))"
| "run it (Suc n) PreSave s = Some (s\<lparr>desired_role_id := Some (role_id s)\<rparr>)"
| "run it (Suc n) PostSave s =
     (case getattr_desired s of
        None \<Rightarrow> Some s
      | Some rid \<Rightarrow>
          map_option (\<lambda>s'. s'\<lparr>desired_role_id := None\<rparr>)
            (run it n (GroupsSet (if rid \<noteq> 0 then [rid] else [])) s))"
| "run it (Suc n) Save s =
     Option.bind (run it n PreSave s) (\<lambda>s1. run it n PostSave (write_row s1))"

text \<open>What each call does when it returns, and how deep its chain of calls can get.\<close>

fun effect :: "set_iter \<Rightarrow> call \<Rightarrow> user_state \<Rightarrow> user_state" where
  "effect it Save s = save it s"
| "effect it (GroupsSet objs) s = groups_set it objs s"
| "effect it (GroupsAdd objs) s = groups_add it objs s"
| "effect it (GroupsRemove objs) s = groups_remove it objs s"
| "effect it GroupsClear s = groups_clear it s"
| "effect it (QsUpdateRole v) s = qs_update_role v s"
| "effect it PreSave s = remember_desired_role s"
| "effect it PostSave s = sync_role_to_groups it s"
| "effect it (M2mChanged action pk_set) s = sync_groups_to_role it action pk_set s"

fun depth :: "call \<Rightarrow> nat" where
  "depth (QsUpdateRole v) = 1"
| "depth PreSave = 1"
| "depth (M2mChanged action pk_set) = 2"
| "depth (GroupsRemove objs) = 3"
| "depth (GroupsAdd objs) = 3"
| "depth GroupsClear = 3"
| "depth (GroupsSet objs) = 4"
| "depth PostSave = 5"
| "depth Save = 6"

section \<open>project/models.py: tenant-owned catalogue rows\<close>

text \<open>
  \<^verbatim>\<open>TenantOwnedMixin\<close> gives a row its \<^verbatim>\<open>organization\<close> (null for a global row) and its
  \<^verbatim>\<open>user\<close>, the creator. \<^verbatim>\<open>Service\<close>, \<^verbatim>\<open>BusinessCycle\<close> and \<^verbatim>\<open>Provider\<close> add columns of
  their own, of which the model keeps the natural key of the unique constraint (\<open>name\<close>;
  \<^verbatim>\<open>company_name\<close> for a provider) and \<open>description\<close>. \<^verbatim>\<open>Industry\<close> also has the
  many-to-many \<^verbatim>\<open>blocked_for\<close> of \<^verbatim>\<open>OrgVisibilityMixin\<close>, and \<^verbatim>\<open>FunctionalArea\<close> the foreign
  key \<^verbatim>\<open>business_cycle\<close>. \<^verbatim>\<open>BaseModel\<close> is not among the sources; it is taken to add
  the primary key and the time stamps that the \<^verbatim>\<open>ordering\<close> options name, and nothing that
  changes how a row is saved or deleted.
\<close>

type_synonym org_id = nat
type_synonym user_id = nat

record tenant_owned =
  pk :: nat
  organization :: "org_id option"
  user :: "user_id option"
  name :: string
  description :: string

record industry = tenant_owned +
  blocked_for :: "org_id set"

record functional_area = tenant_owned +
  business_cycle :: nat

subsection \<open>\<^verbatim>\<open>TenantAwareQuerySet.visible_to\<close>\<close>

text \<open>
  A queryset is the list of its rows. The model class of the queryset decides
  \<^verbatim>\<open>hasattr(self.model, "blocked_for")\<close>: it is given as the accessor of the relation,
  \<open>Some blocked_for\<close> for \<^verbatim>\<open>Industry\<close> and \<open>None\<close> for the four models without
  \<^verbatim>\<open>OrgVisibilityMixin\<close>.

  \<^verbatim>\<open>qs.exclude(blocked_for=org)\<close> drops the rows that match the lookup
  \<^verbatim>\<open>blocked_for=org\<close>. For an organization, a row matches when the organization is one of
  its \<^verbatim>\<open>blocked_for\<close>. For \<^verbatim>\<open>org=None\<close> Django reads an exact lookup against \<^verbatim>\<open>None\<close> as
  \<^verbatim>\<open>blocked_for__isnull=True\<close>, which over a many-to-many relation matches the rows with no
  related row at all: those are the rows the \<^verbatim>\<open>exclude\<close> drops.
\<close>

definition matches_blocked_for :: "org_id set \<Rightarrow> org_id option \<Rightarrow> bool" where
  "matches_blocked_for blocked org =
     (case org of None \<Rightarrow> blocked = {} | Some o' \<Rightarrow> o' \<in> blocked)"

definition visible_to ::
  "('a tenant_owned_scheme \<Rightarrow> org_id set) option \<Rightarrow> org_id option \<Rightarrow>
   'a tenant_owned_scheme list \<Rightarrow> 'a tenant_owned_scheme list" where
  "visible_to model_blocked_for org self =
     (let qs = (case org of
                  None \<Rightarrow> filter (\<lambda>r. organization r = None) self
                | Some o' \<Rightarrow> filter (\<lambda>r. organization r = None \<or> organization r = Some o') self)
      in case model_blocked_for of
           None \<Rightarrow> qs
         | Some blocked \<Rightarrow> filter (\<lambda>r. \<not> matches_blocked_for (blocked r) org) qs)"

subsection \<open>\<^verbatim>\<open>UniqueConstraint(fields=['organization', 'name'])\<close>\<close>

text \<open>
  Each of the five catalogue models declares the constraint over \<^verbatim>\<open>organization\<close> and its
  natural key, with neither a condition nor \<^verbatim>\<open>nulls_distinct\<close>. It becomes a plain SQL
  UNIQUE constraint over the two columns, and SQL holds two null values to be distinct: only
  rows with the same non-null \<^verbatim>\<open>organization_id\<close> and the same name collide. The insert
  of a colliding row raises \<^verbatim>\<open>IntegrityError\<close>. The primary key is handed out by the database.
\<close>

datatype db_error = IntegrityError | ProtectedError

definition unique_conflict ::
  "'a tenant_owned_scheme \<Rightarrow> 'a tenant_owned_scheme list \<Rightarrow> bool" where
  "unique_conflict r tbl =
     (\<exists>x \<in> set tbl. organization x \<noteq> None \<and> organization x = organization r \<and> name x = name r)"

definition fresh_pk :: "nat list \<Rightarrow> nat" where
  "fresh_pk pks = Suc (foldr max pks 0)"

definition create_row ::
  "'a tenant_owned_scheme \<Rightarrow> 'a tenant_owned_scheme list \<Rightarrow>
   db_error + 'a tenant_owned_scheme list" where
  "create_row r tbl =
     (if unique_conflict r tbl then Inl IntegrityError
      else Inr (tbl @ [r\<lparr>pk := fresh_pk (map pk tbl)\<rparr>]))"

section \<open>project/models.py: proposals and their rows\<close>

datatype priority = LOW | MEDIUM | HIGH

datatype json =
    JNull | JBool bool | JInt int | JStr string | JList "json list" | JObj "(string \<times> json) list"

text \<open>
  The join models. Both foreign keys of \<^verbatim>\<open>ProjectGeneratedRFPService\<close> are nullable; those of
  the other two are not.
\<close>

record rfp_service_row =
  sj_generated_rfp :: "nat option"
  sj_service :: "nat option"

record rfp_cycle_row =
  cj_generated_rfp :: nat
  cj_business_cycle :: nat

record rfp_area_row =
  aj_generated_rfp :: nat
  aj_area :: nat
  aj_priority :: priority

record generated_rfp =
  rfp_pk :: nat
  rfp_status :: string
  rfp_name :: string
  rfp_description :: string
  company_url :: string
  value_propositions :: string
  rfp_organization :: "org_id option"
  rfp_user :: user_id
  allowed_users :: "user_id set"
  rfp_industry :: nat
  questionnaires :: json
  descriptions :: json

record finalized_rfp =
  fin_pk :: nat
  source_rfp :: "nat option"
  fin_organization :: org_id
  fin_status :: string
  snapshot_data :: json

record project_db =
  tbl_industry :: "industry list"
  tbl_service :: "tenant_owned list"
  tbl_business_cycle :: "tenant_owned list"
  tbl_functional_area :: "functional_area list"
  tbl_provider :: "tenant_owned list"
  tbl_generated_rfp :: "generated_rfp list"
  tbl_rfp_service :: "rfp_service_row list"
  tbl_rfp_business_cycle :: "rfp_cycle_row list"
  tbl_rfp_area :: "rfp_area_row list"
  tbl_finalized_rfp :: "finalized_rfp list"

subsection \<open>Deletion: \<^verbatim>\<open>on_delete\<close>\<close>

text \<open>
  \<^verbatim>\<open>Model.delete()\<close> first collects what the deletion reaches: for every foreign key that
  points at a collected row and has rows referring to it, \<^verbatim>\<open>CASCADE\<close> collects those rows
  too, \<^verbatim>\<open>SET_NULL\<close> queues an update of the column, and \<^verbatim>\<open>PROTECT\<close> raises
  \<^verbatim>\<open>ProtectedError\<close>. Nothing is written before the collection is over, so a protected
  deletion leaves the database as it was.

  The foreign keys of the sources that point at the rows deleted below:
  \<^item> to \<^verbatim>\<open>Service\<close>: \<^verbatim>\<open>ProjectGeneratedRFPService.service\<close>, \<^verbatim>\<open>PROTECT\<close>;
  \<^item> to \<^verbatim>\<open>FunctionalArea\<close>: \<^verbatim>\<open>ProjectGeneratedRFPArea.area\<close>, \<^verbatim>\<open>PROTECT\<close>;
  \<^item> to \<^verbatim>\<open>BusinessCycle\<close>: \<^verbatim>\<open>ProjectGeneratedRFPBusinessCycle.business_cycle\<close>,
    \<^verbatim>\<open>PROTECT\<close>, and \<^verbatim>\<open>FunctionalArea.business_cycle\<close>, \<^verbatim>\<open>CASCADE\<close>;
  \<^item> to \<^verbatim>\<open>GeneratedRFP\<close>: \<^verbatim>\<open>generated_rfp\<close> of the three join models, \<^verbatim>\<open>CASCADE\<close>,
    and \<^verbatim>\<open>FinalizedRFP.source_rfp\<close>, \<^verbatim>\<open>SET_NULL\<close>;
  \<^item> to the user: \<^verbatim>\<open>TenantOwnedMixin.user\<close>, \<^verbatim>\<open>SET_NULL\<close>, \<^verbatim>\<open>GeneratedRFP.user\<close>,
    \<^verbatim>\<open>CASCADE\<close>, and the rows of \<^verbatim>\<open>GeneratedRFP.allowed_users\<close>, which go with either end.

  The other referring models (\<^verbatim>\<open>SubmittedRFP\<close>, \<^verbatim>\<open>ResponseRFP\<close>,
  \<^verbatim>\<open>ProjectFunctionalAreaSession\<close>, \<^verbatim>\<open>UserBusinessCycleAssignment\<close>, \<^verbatim>\<open>Invite\<close>,
  \<^verbatim>\<open>PasswordResetToken\<close>) are all \<^verbatim>\<open>CASCADE\<close> and nothing protects their rows: they never
  stop a deletion and have no table here.
\<close>

definition delete_service :: "nat \<Rightarrow> project_db \<Rightarrow> db_error + project_db" where
  "delete_service sid db =
     (if \<exists>j \<in> set (tbl_rfp_service db). sj_service j = Some sid then Inl ProtectedError
      else Inr (db\<lparr>tbl_service := filter (\<lambda>r. pk r \<noteq> sid) (tbl_service db)\<rparr>))"

definition delete_functional_area :: "nat \<Rightarrow> project_db \<Rightarrow> db_error + project_db" where
  "delete_functional_area aid db =
     (if \<exists>j \<in> set (tbl_rfp_area db). aj_area j = aid then Inl ProtectedError
      else Inr (db\<lparr>tbl_functional_area := filter (\<lambda>r. pk r \<noteq> aid) (tbl_functional_area db)\<rparr>))"

definition areas_of_cycle :: "nat \<Rightarrow> project_db \<Rightarrow> nat list" where
  "areas_of_cycle cid db = map pk (filter (\<lambda>a. business_cycle a = cid) (tbl_functional_area db))"

definition delete_business_cycle :: "nat \<Rightarrow> project_db \<Rightarrow> db_error + project_db" where
  "delete_business_cycle cid db =
     (if (\<exists>j \<in> set (tbl_rfp_business_cycle db). cj_business_cycle j = cid)
         \<or> (\<exists>j \<in> set (tbl_rfp_area db). aj_area j \<in> set (areas_of_cycle cid db))
      then Inl ProtectedError
      else Inr (db\<lparr>tbl_business_cycle := filter (\<lambda>r. pk r \<noteq> cid) (tbl_business_cycle db),
                    tbl_functional_area :=
                      filter (\<lambda>a. business_cycle a \<noteq> cid) (tbl_functional_area db)\<rparr>))"

text \<open>Deleting the join rows that refer to a catalogue row (\<^verbatim>\<open>filter(...).delete()\<close>).\<close>

definition remove_service_joins :: "nat \<Rightarrow> project_db \<Rightarrow> project_db" where
  "remove_service_joins sid db =
     db\<lparr>tbl_rfp_service := filter (\<lambda>j. sj_service j \<noteq> Some sid) (tbl_rfp_service db)\<rparr>"

definition remove_area_joins :: "nat \<Rightarrow> project_db \<Rightarrow> project_db" where
  "remove_area_joins aid db =
     db\<lparr>tbl_rfp_area := filter (\<lambda>j. aj_area j \<noteq> aid) (tbl_rfp_area db)\<rparr>"

definition remove_cycle_joins :: "nat \<Rightarrow> project_db \<Rightarrow> project_db" where
  "remove_cycle_joins cid db =
     db\<lparr>tbl_rfp_business_cycle :=
          filter (\<lambda>j. cj_business_cycle j \<noteq> cid) (tbl_rfp_business_cycle db)\<rparr>"

text \<open>
  Deleting proposals: the rows of the three join models go with them, and a finalized
  proposal loses its \<^verbatim>\<open>source_rfp\<close>.
\<close>

definition cascade_rfps :: "nat list \<Rightarrow> project_db \<Rightarrow> project_db" where
  "cascade_rfps rs db =
     db\<lparr>tbl_generated_rfp := filter (\<lambda>p. rfp_pk p \<notin> set rs) (tbl_generated_rfp db),
        tbl_rfp_service :=
          filter (\<lambda>j. sj_generated_rfp j \<notin> Some ` set rs) (tbl_rfp_service db),
        tbl_rfp_business_cycle :=
          filter (\<lambda>j. cj_generated_rfp j \<notin> set rs) (tbl_rfp_business_cycle db),
        tbl_rfp_area := filter (\<lambda>j. aj_generated_rfp j \<notin> set rs) (tbl_rfp_area db),
        tbl_finalized_rfp :=
          map (\<lambda>f. if source_rfp f \<in> Some ` set rs then f\<lparr>source_rfp := None\<rparr> else f)
            (tbl_finalized_rfp db)\<rparr>"

definition delete_generated_rfp :: "nat \<Rightarrow> project_db \<Rightarrow> project_db" where
  "delete_generated_rfp rid db = cascade_rfps [rid] db"

text \<open>Deleting a user.\<close>

definition set_null_user ::
  "user_id \<Rightarrow> 'a tenant_owned_scheme list \<Rightarrow> 'a tenant_owned_scheme list" where
  "set_null_user u tbl = map (\<lambda>r. if user r = Some u then r\<lparr>user := None\<rparr> else r) tbl"

definition owned_rfps :: "user_id \<Rightarrow> project_db \<Rightarrow> nat list" where
  "owned_rfps u db = map rfp_pk (filter (\<lambda>p. rfp_user p = u) (tbl_generated_rfp db))"

definition delete_user :: "user_id \<Rightarrow> project_db \<Rightarrow> project_db" where
  "delete_user u db =
     (let db1 = cascade_rfps (owned_rfps u db) db
      in db1\<lparr>tbl_industry := set_null_user u (tbl_industry db1),
             tbl_service := set_null_user u (tbl_service db1),
             tbl_business_cycle := set_null_user u (tbl_business_cycle db1),
             tbl_functional_area := set_null_user u (tbl_functional_area db1),
             tbl_provider := set_null_user u (tbl_provider db1),
             tbl_generated_rfp :=
               map (\<lambda>p. p\<lparr>allowed_users := allowed_users p - {u}\<rparr>) (tbl_generated_rfp db1)\<rparr>)"

subsection \<open>The content of a proposal and its changes\<close>

text \<open>
  \<^verbatim>\<open>GeneratedRFP.services\<close>, \<^verbatim>\<open>business_cycles\<close> and \<^verbatim>\<open>areas\<close> are many-to-many
  relations through the join models: what a proposal holds of each is read off the join rows
  that refer to it.
\<close>

definition services_of :: "nat \<Rightarrow> project_db \<Rightarrow> nat list" where
  "services_of rid db =
     List.map_filter (\<lambda>j. if sj_generated_rfp j = Some rid then sj_service j else None)
       (tbl_rfp_service db)"

definition business_cycles_of :: "nat \<Rightarrow> project_db \<Rightarrow> nat list" where
  "business_cycles_of rid db =
     map cj_business_cycle (filter (\<lambda>j. cj_generated_rfp j = rid) (tbl_rfp_business_cycle db))"

definition areas_of :: "nat \<Rightarrow> project_db \<Rightarrow> (nat \<times> priority) list" where
  "areas_of rid db =
     map (\<lambda>j. (aj_area j, aj_priority j))
       (filter (\<lambda>j. aj_generated_rfp j = rid) (tbl_rfp_area db))"

text \<open>
  The ways a stored proposal changes: through the related managers of the three relations
  (\<^verbatim>\<open>add\<close> skips a row that is there already, as the unique constraints of the join models
  demand), by saving the row with other values in its columns, and by deleting it.
\<close>

datatype rfp_mutation =
    ServicesAdd nat
  | ServicesRemove nat
  | ServicesClear
  | CyclesAdd nat
  | CyclesRemove nat
  | AreasAdd nat priority
  | AreasRemove nat
  | SaveFields "generated_rfp \<Rightarrow> generated_rfp"
  | Delete

fun mutate :: "nat \<Rightarrow> rfp_mutation \<Rightarrow> project_db \<Rightarrow> project_db" where
  "mutate rid (ServicesAdd sid) db =
     (if sid \<in> set (services_of rid db) then db
      else db\<lparr>tbl_rfp_service :=
                tbl_rfp_service db @ [\<lparr>sj_generated_rfp = Some rid, sj_service = Some sid\<rparr>]\<rparr>)"
| "mutate rid (ServicesRemove sid) db =
     db\<lparr>tbl_rfp_service :=
          filter (\<lambda>j. \<not> (sj_generated_rfp j = Some rid \<and> sj_service j = Some sid))
            (tbl_rfp_service db)\<rparr>"
| "mutate rid ServicesClear db =
     db\<lparr>tbl_rfp_service := filter (\<lambda>j. sj_generated_rfp j \<noteq> Some rid) (tbl_rfp_service db)\<rparr>"
| "mutate rid (CyclesAdd cid) db =
     (if cid \<in> set (business_cycles_of rid db) then db
      else db\<lparr>tbl_rfp_business_cycle :=
                tbl_rfp_business_cycle db
                  @ [\<lparr>cj_generated_rfp = rid, cj_business_cycle = cid\<rparr>]\<rparr>)"
| "mutate rid (CyclesRemove cid) db =
     db\<lparr>tbl_rfp_business_cycle :=
          filter (\<lambda>j. \<not> (cj_generated_rfp j = rid \<and> cj_business_cycle j = cid))
            (tbl_rfp_business_cycle db)\<rparr>"
| "mutate rid (AreasAdd aid pr) db =
     (if aid \<in> fst ` set (areas_of rid db) then db
      else db\<lparr>tbl_rfp_area :=
                tbl_rfp_area db
                  @ [\<lparr>aj_generated_rfp = rid, aj_area = aid, aj_priority = pr\<rparr>]\<rparr>)"
| "mutate rid (AreasRemove aid) db =
     db\<lparr>tbl_rfp_area :=
          filter (\<lambda>j. \<not> (aj_generated_rfp j = rid \<and> aj_area j = aid)) (tbl_rfp_area db)\<rparr>"
| "mutate rid (SaveFields g) db =
     db\<lparr>tbl_generated_rfp :=
          map (\<lambda>p. if rfp_pk p = rid then (g p)\<lparr>rfp_pk := rid\<rparr> else p) (tbl_generated_rfp db)\<rparr>"
| "mutate rid Delete db = delete_generated_rfp rid db"

definition mutate_all :: "nat \<Rightarrow> rfp_mutation list \<Rightarrow> project_db \<Rightarrow> project_db" where
  "mutate_all rid ms db = foldl (\<lambda>d m. mutate rid m d) db ms"

subsection \<open>Finalizing a proposal\<close>

text \<open>
  Modelled from the spec: the sources declare the model \<^verbatim>\<open>FinalizedRFP\<close> with its
  \<^verbatim>\<open>JSONField\<close> \<^verbatim>\<open>snapshot_data\<close>, but hold no code that creates a finalized proposal. The
  specification gives the operation \<^verbatim>\<open>finalize(generatedRFP)\<close>: it fails with
  \<^verbatim>\<open>MissingOwnerError\<close> for a proposal without an organization; otherwise it builds a
  structured copy of the proposal's content (industry id, service id list, business-cycle id
  list, area-priority pairs, questionnaire entries, description entries) as one document, and
  creates a \<^verbatim>\<open>FinalizedRFP\<close> that holds it and whose \<^verbatim>\<open>organization\<close> and \<^verbatim>\<open>source_rfp\<close>
  point at the originals.
\<close>

datatype finalize_error = MissingOwnerError

text \<open>
  Modelled from the spec: the snapshot document, "an opaque nested key-value payload whose
  schema mirrors the GeneratedRFP's field shape". The priorities are written with the values
  of \<^verbatim>\<open>ProjectGeneratedRFPArea.Priority\<close>.
\<close>

definition priority_json :: "priority \<Rightarrow> json" where
  "priority_json pr =
     (case pr of LOW \<Rightarrow> JStr ''low'' | MEDIUM \<Rightarrow> JStr ''medium'' | HIGH \<Rightarrow> JStr ''high'')"

definition rfp_content :: "generated_rfp \<Rightarrow> project_db \<Rightarrow> json" where
  "rfp_content p db =
     JObj [(''industry'', JInt (int (rfp_industry p))),
           (''services'', JList (map (\<lambda>i. JInt (int i)) (services_of (rfp_pk p) db))),
           (''business_cycles'',
              JList (map (\<lambda>i. JInt (int i)) (business_cycles_of (rfp_pk p) db))),
           (''areas'',
              JList (map (\<lambda>(a, pr). JObj [(''area'', JInt (int a)), (''priority'', priority_json pr)])
                       (areas_of (rfp_pk p) db))),
           (''questionnaires'', questionnaires p),
           (''descriptions'', descriptions p)]"

text \<open>
  Modelled from the spec: the operation \<^verbatim>\<open>finalize(generatedRFP)\<close>, which gives the
  finalized proposal and leaves it stored. The status is the
  default of \<^verbatim>\<open>FinalizedRFP.status\<close>.
\<close>

definition finalize ::
  "generated_rfp \<Rightarrow> project_db \<Rightarrow> finalize_error + finalized_rfp \<times> project_db" where
  "finalize p db =
     (case rfp_organization p of
        None \<Rightarrow> Inl MissingOwnerError
      | Some org \<Rightarrow>
          let f = \<lparr>fin_pk = fresh_pk (map fin_pk (tbl_finalized_rfp db)),
                   source_rfp = Some (rfp_pk p),
                   fin_organization = org,
                   fin_status = ''finalized'',
                   snapshot_data = rfp_content p db\<rparr>
          in Inr (f, db\<lparr>tbl_finalized_rfp := tbl_finalized_rfp db @ [f]\<rparr>))"

section \<open>Sample data\<close>

definition empty_db :: project_db where
  "empty_db = \<lparr>tbl_industry = [], tbl_service = [], tbl_business_cycle = [],
     tbl_functional_area = [], tbl_provider = [], tbl_generated_rfp = [], tbl_rfp_service = [],
     tbl_rfp_business_cycle = [], tbl_rfp_area = [], tbl_finalized_rfp = []\<rparr>"

definition example_rfp :: generated_rfp where
  "example_rfp = \<lparr>rfp_pk = 100, rfp_status = ''in-progress'', rfp_name = ''Payroll'',
     rfp_description = [], company_url = [], value_propositions = [],
     rfp_organization = Some 4, rfp_user = 1, allowed_users = {1, 2}, rfp_industry = 7,
     questionnaires = JList [], descriptions = JList [JStr ''d'']\<rparr>"

text \<open>
  One proposal of user 1 with a service, a business cycle and a functional area. Area 3, which
  the proposal refers to, belongs to cycle 5; cycle 2, which it also refers to, has area 4.
\<close>

definition example_db :: project_db where
  "example_db = empty_db
     \<lparr>tbl_service :=
        [\<lparr>pk = 1, organization = Some 4, user = Some 1, name = ''Audit'', description = ''a''\<rparr>],
      tbl_business_cycle :=
        [\<lparr>pk = 2, organization = None, user = Some 1, name = ''Plan'', description = []\<rparr>,
         \<lparr>pk = 5, organization = None, user = Some 2, name = ''Build'', description = []\<rparr>],
      tbl_functional_area :=
        [\<lparr>pk = 3, organization = None, user = Some 1, name = ''Ledger'', description = [],
          business_cycle = 5\<rparr>,
         \<lparr>pk = 4, organization = None, user = Some 2, name = ''Budget'', description = [],
          business_cycle = 2\<rparr>],
      tbl_generated_rfp := [example_rfp],
      tbl_rfp_service := [\<lparr>sj_generated_rfp = Some 100, sj_service = Some 1\<rparr>],
      tbl_rfp_business_cycle := [\<lparr>cj_generated_rfp = 100, cj_business_cycle = 2\<rparr>],
      tbl_rfp_area := [\<lparr>aj_generated_rfp = 100, aj_area = 3, aj_priority = HIGH\<rparr>]\<rparr>"

text \<open>The same proposal, where the area it refers to belongs to the cycle it refers to.\<close>

definition cycle_db :: project_db where
  "cycle_db = empty_db
     \<lparr>tbl_business_cycle :=
        [\<lparr>pk = 2, organization = None, user = None, name = ''Plan'', description = []\<rparr>],
      tbl_functional_area :=
        [\<lparr>pk = 3, organization = None, user = None, name = ''Ledger'', description = [],
          business_cycle = 2\<rparr>],
      tbl_generated_rfp := [example_rfp],
      tbl_rfp_business_cycle := [\<lparr>cj_generated_rfp = 100, cj_business_cycle = 2\<rparr>],
      tbl_rfp_area := [\<lparr>aj_generated_rfp = 100, aj_area = 3, aj_priority = LOW\<rparr>]\<rparr>"

definition example_final :: finalized_rfp where
  "example_final = \<lparr>fin_pk = 1, source_rfp = Some 100, fin_organization = 4,
     fin_status = ''finalized'',
     snapshot_data = JObj [(''industry'', JInt 7), (''services'', JList [JInt 1]),
       (''business_cycles'', JList [JInt 2]),
       (''areas'', JList [JObj [(''area'', JInt 3), (''priority'', JStr ''high'')]]),
       (''questionnaires'', JList []), (''descriptions'', JList [JStr ''d''])]\<rparr>"

section \<open>Properties of the role and group synchronisation\<close>

lemmas sync_defs =
  save_def assign_role_def new_user_def groups_remove_def groups_add_def groups_clear_def
  groups_set_def sync_role_to_groups_def getattr_desired_def write_row_def
  remember_desired_role_def sync_groups_to_role_def listened_def new_role_id_def next_iter_def
  qs_update_role_def first_group_def role_in_groups_def

subsection \<open>The chain of calls is bounded\<close>

lemma run_update: "run it (Suc n) (QsUpdateRole v) s = Some (qs_update_role v s)"
  by (simp add: qs_update_role_def)

lemma run_m2m:
  "run it (Suc (Suc n)) (M2mChanged action pk_set) s
     = Some (sync_groups_to_role it action pk_set s)"
  by (simp add: sync_groups_to_role_def qs_update_role_def)

lemma run_remove:
  "run it (Suc (Suc (Suc n))) (GroupsRemove objs) s = Some (groups_remove it objs s)"
  unfolding run.simps(4) run_m2m by (simp add: groups_remove_def Let_def)

lemma run_add:
  "run it (Suc (Suc (Suc n))) (GroupsAdd objs) s = Some (groups_add it objs s)"
  unfolding run.simps(5) run_m2m by (simp add: groups_add_def Let_def)

lemma run_clear:
  "run it (Suc (Suc (Suc n))) GroupsClear s = Some (groups_clear it s)"
  unfolding run.simps(6) run_m2m by (simp add: groups_clear_def Let_def)

lemma run_set:
  "run it (Suc (Suc (Suc (Suc n)))) (GroupsSet objs) s = Some (groups_set it objs s)"
  unfolding run.simps(7) run_remove run_add by (simp add: groups_set_def split: prod.splits)

lemma run_pre_save: "run it (Suc n) PreSave s = Some (remember_desired_role s)"
  by (simp add: remember_desired_role_def)

lemma run_post_save:
  "run it (Suc (Suc (Suc (Suc (Suc n))))) PostSave s = Some (sync_role_to_groups it s)"
  unfolding run.simps(9) run_set by (simp add: sync_role_to_groups_def split: option.splits)

lemma run_save:
  "run it (Suc (Suc (Suc (Suc (Suc (Suc n)))))) Save s = Some (save it s)"
  unfolding run.simps(10) run_pre_save run_post_save by (simp add: save_def)

text \<open>
  C6. A role change (\<open>Save\<close>) and every change of the groups (\<open>GroupsSet\<close>, \<open>GroupsAdd\<close>,
  \<open>GroupsRemove\<close>, \<open>GroupsClear\<close>) returns: the chain of nested calls it starts is at most
  \<open>depth c\<close> deep, which is at most 6, and with that much room or more \<open>run\<close> gives the
  state the operation leaves. The receiver of \<^verbatim>\<open>m2m_changed\<close> writes the role with
  \<open>QsUpdateRole\<close>, the queryset update, which calls nothing: the receiver of \<^verbatim>\<open>post_save\<close> is
  not entered from it, so the two receivers do not call each other in a circle.
\<close>

theorem sync_terminates:
  "run it (depth c + k) c s = Some (effect it c s) \<and> depth c \<le> 6"
  by (cases c)
     (simp_all add: eval_nat_numeral run_update run_m2m run_remove run_add run_clear run_set
        run_pre_save run_post_save run_save del: run.simps)

text \<open>
  A run that needs all six levels: user 1 has role 1 and group 1 and is saved with role 2. With
  room for five nested calls the chain is cut off.
\<close>

theorem sync_terminates_witness:
  "run sorted_list_of_set 6 Save
     (assign_role (Some 2) (save sorted_list_of_set (assign_role (Some 1) new_user)))
   = Some \<lparr>role_id = Some 2, desired_role_id = None, db_role = Some 1, db_groups = {2}\<rparr>"
  using sync_terminates [of sorted_list_of_set Save 0
      "assign_role (Some 2) (save sorted_list_of_set (assign_role (Some 1) new_user))"]
  by (simp add: sync_defs)

lemma five_levels_too_few:
  "run sorted_list_of_set 5 Save
     (assign_role (Some 2) (save sorted_list_of_set (assign_role (Some 1) new_user))) = None"
  by code_simp

subsection \<open>What the operations do to the stored groups\<close>

lemma db_groups_sync [simp]:
  "db_groups (sync_groups_to_role it action pk_set s) = db_groups s"
  by (simp add: sync_groups_to_role_def qs_update_role_def)

lemma db_groups_remove: "db_groups (groups_remove it objs s) = db_groups s - objs"
  by (simp add: groups_remove_def Let_def)

lemma db_groups_add: "db_groups (groups_add it objs s) = db_groups s \<union> objs"
  by (auto simp add: groups_add_def Let_def)

lemma db_groups_clear: "db_groups (groups_clear it s) = {}"
  by (simp add: groups_clear_def Let_def)

lemma set_split_sets:
  "set_split objs old_ids new_objs = (old', new') \<Longrightarrow>
     old' = old_ids - set objs \<and> set new' \<subseteq> set new_objs \<union> set objs
     \<and> set new_objs \<union> (set objs - old_ids) \<subseteq> set new'"
proof (induction objs arbitrary: old_ids new_objs)
  case Nil
  then show ?case by auto
next
  case (Cons obj objs)
  show ?case
  proof (cases "obj \<in> old_ids")
    case True
    with Cons.prems have "set_split objs (old_ids - {obj}) new_objs = (old', new')" by simp
    from Cons.IH [OF this] True show ?thesis by auto
  next
    case False
    with Cons.prems have "set_split objs old_ids (new_objs @ [obj]) = (old', new')" by simp
    from Cons.IH [OF this] False show ?thesis by auto
  qed
qed

lemma db_groups_set: "db_groups (groups_set it objs s) = set objs"
proof -
  obtain old' new' where sp: "set_split objs (db_groups s) [] = (old', new')"
    by (cases "set_split objs (db_groups s) []")
  from set_split_sets [OF sp]
  have "old' = db_groups s - set objs" "set new' \<subseteq> set objs" "set objs - db_groups s \<subseteq> set new'"
    by auto
  then show ?thesis
    by (auto simp add: groups_set_def sp db_groups_add db_groups_remove)
qed

text \<open>
  Saving a user with a role \<open>r\<close> other than the key 0 leaves exactly \<open>{r}\<close> as the stored
  groups, whatever they were. Saving the user with no role leaves the stored groups as they were.
\<close>

lemma save_role_groups:
  "r \<noteq> 0 \<Longrightarrow> db_groups (save it (assign_role (Some r) s)) = {r}"
  by (simp add: save_def sync_role_to_groups_def getattr_desired_def write_row_def
      remember_desired_role_def assign_role_def db_groups_set)

lemma save_null_role_groups:
  "db_groups (save it (assign_role None s)) = db_groups s"
  by (simp add: save_def sync_role_to_groups_def getattr_desired_def write_row_def
      remember_desired_role_def assign_role_def)

text \<open>
  Clearing the groups through an object whose \<^verbatim>\<open>role_id\<close> agrees with the stored row leaves
  the stored role null.
\<close>

lemma clear_fresh:
  "db_role (groups_clear it (refresh_from_db s)) = None"
  by (simp add: groups_clear_def Let_def sync_groups_to_role_def listened_def new_role_id_def
      first_group_def qs_update_role_def refresh_from_db_def)

subsection \<open>Runs on which role and groups part\<close>

text \<open>
  C1. The stored role is null or one of the stored groups, in every state the operations
  reach. The code does not keep this: a new user is given role 1 and saved, which stores role 1
  and the groups \<open>{1}\<close>; then \<^verbatim>\<open>user.groups.remove(1)\<close>. The receiver is handed
  \<^verbatim>\<open>pk_set={1}\<close>, the key just removed, takes it as the new role, finds
  \<^verbatim>\<open>instance.role_id\<close> equal to it and writes nothing: the stored role stays 1 and the stored
  groups are empty.
\<close>

theorem remove_leaves_role_outside_groups:
  "groups_remove sorted_list_of_set {1} (save sorted_list_of_set (assign_role (Some 1) new_user))
     = \<lparr>role_id = Some 1, desired_role_id = None, db_role = Some 1, db_groups = {}\<rparr>
   \<and> role_in_groups (save sorted_list_of_set (assign_role (Some 1) new_user))
   \<and> \<not> role_in_groups
         (groups_remove sorted_list_of_set {1}
            (save sorted_list_of_set (assign_role (Some 1) new_user)))"
  by (simp add: sync_defs)

text \<open>
  Saving a changed role parts them as well. While \<^verbatim>\<open>groups.set([2])\<close> removes group 1, the
  receiver writes the removed key 1 over the role 2 that was stored a moment ago; when group 2
  is added the receiver compares 2 with \<^verbatim>\<open>instance.role_id\<close>, which is 2, and writes nothing.
\<close>

lemma save_other_role_keeps_stored_role:
  "save sorted_list_of_set
     (assign_role (Some 2) (save sorted_list_of_set (assign_role (Some 1) new_user)))
   = \<lparr>role_id = Some 2, desired_role_id = None, db_role = Some 1, db_groups = {2}\<rparr>"
  by (simp add: sync_defs)

text \<open>
  C2. Saving a user with role \<open>R\<close> leaves the groups \<open>{R}\<close>, and saving a user with no role
  leaves no group. The first half holds (\<open>save_role_groups\<close>). The second does not: for a null
  role \<^verbatim>\<open>_sync_role_to_groups\<close> returns before it reaches \<^verbatim>\<open>groups.set\<close>. The user with role 1
  and the groups \<open>{1}\<close> is given the role \<^verbatim>\<open>None\<close> and saved: the groups are still \<open>{1}\<close>.
\<close>

theorem save_null_role_keeps_groups:
  "save sorted_list_of_set
     (assign_role None (save sorted_list_of_set (assign_role (Some 1) new_user)))
   = \<lparr>role_id = None, desired_role_id = Some None, db_role = None, db_groups = {1}\<rparr>"
  by (simp add: sync_defs)

text \<open>
  C9. Clearing the groups of a user leaves the role null. The receiver writes the role only
  when it differs from \<^verbatim>\<open>instance.role_id\<close>, and the object still holds the role it was
  loaded with after the receiver has written another one. On a new user,
  \<^verbatim>\<open>user.groups.add(5)\<close> stores role 5 while \<^verbatim>\<open>user.role_id\<close> stays \<^verbatim>\<open>None\<close>; then
  \<^verbatim>\<open>user.groups.clear()\<close> computes the new role \<^verbatim>\<open>None\<close>, finds it equal to \<^verbatim>\<open>user.role_id\<close>
  and writes nothing: the stored role is still 5, with no group left.
\<close>

theorem clear_after_add_keeps_role:
  "groups_clear sorted_list_of_set (groups_add sorted_list_of_set {5} new_user)
     = \<lparr>role_id = None, desired_role_id = None, db_role = Some 5, db_groups = {}\<rparr>"
  by (simp add: sync_defs)

section \<open>Properties of \<^verbatim>\<open>visible_to\<close>\<close>

text \<open>
  What \<open>visible_to\<close> returns, by the kind of model and of viewer. For a model without
  \<^verbatim>\<open>blocked_for\<close>: the global rows and the viewer's own. For \<^verbatim>\<open>Industry\<close> and an
  organization: of those rows, the ones that do not block the viewer, its own rows included.
  For \<^verbatim>\<open>Industry\<close> and no organization: the global rows that block somebody.
\<close>

lemma visible_to_org_plain:
  "set (visible_to None (Some o') rows) =
     {r \<in> set rows. organization r = None} \<union> {r \<in> set rows. organization r = Some o'}"
  by (auto simp add: visible_to_def)

lemma visible_to_none_plain:
  "visible_to None None rows = filter (\<lambda>r. organization r = None) rows"
  by (simp add: visible_to_def)

lemma visible_to_org_blocked:
  "set (visible_to (Some blocked) (Some o') rows) =
     {r \<in> set rows. (organization r = None \<or> organization r = Some o') \<and> o' \<notin> blocked r}"
  by (auto simp add: visible_to_def matches_blocked_for_def)

lemma visible_to_none_blocked:
  "visible_to (Some blocked) None rows =
     filter (\<lambda>r. organization r = None \<and> blocked r \<noteq> {}) rows"
  by (simp add: visible_to_def matches_blocked_for_def conj_commute)

text \<open>No row of another organization is returned, whatever its block list.\<close>

lemma visible_to_never_foreign:
  "r \<in> set (visible_to m (Some o') rows) \<Longrightarrow> organization r = Some o2 \<Longrightarrow> o2 = o'"
  by (auto simp add: visible_to_def Let_def split: option.splits)

text \<open>
  C3, as the code has it. For an organization \<open>O\<close>, \<open>visible_to\<close> returns, in the order of
  the queryset, exactly the rows that are global or owned by \<open>O\<close> and, for a model with
  \<^verbatim>\<open>blocked_for\<close>, do not have \<open>O\<close> in their block list: the exclusion is applied to the
  whole queryset, so it holds for the rows of \<open>O\<close> as it does for the global rows. No row of
  another organization is returned, whatever its block list.
\<close>

theorem visible_to_organization:
  "visible_to m (Some o') rows
     = filter (\<lambda>r. (organization r = None \<or> organization r = Some o')
                  \<and> (case m of None \<Rightarrow> True | Some blocked \<Rightarrow> o' \<notin> blocked r)) rows
   \<and> (\<forall>r \<in> set (visible_to m (Some o') rows).
        organization r = None \<or> organization r = Some o')"
  by (cases m) (auto simp add: visible_to_def matches_blocked_for_def Let_def conj_commute)

text \<open>
  Organization 1 looks at four industries: a global one, a global one that blocks it, one of
  its own that blocks organization 2, and one of organization 2. It sees the first and the
  third. Of three services (a model without \<^verbatim>\<open>blocked_for\<close>) it sees the global one and its
  own.
\<close>

theorem visible_to_organization_witness:
  "visible_to (Some blocked_for) (Some 1)
     [\<lparr>pk = 1, organization = None, user = None, name = ''Retail'', description = [],
       blocked_for = {}\<rparr>,
      \<lparr>pk = 2, organization = None, user = None, name = ''Mining'', description = [],
       blocked_for = {1}\<rparr>,
      \<lparr>pk = 3, organization = Some 1, user = None, name = ''Energy'', description = [],
       blocked_for = {2}\<rparr>,
      \<lparr>pk = 4, organization = Some 2, user = None, name = ''Retail'', description = [],
       blocked_for = {}\<rparr>]
   = [\<lparr>pk = 1, organization = None, user = None, name = ''Retail'', description = [],
       blocked_for = {}\<rparr>,
      \<lparr>pk = 3, organization = Some 1, user = None, name = ''Energy'', description = [],
       blocked_for = {2}\<rparr>]
   \<and> visible_to None (Some 1)
     [\<lparr>pk = 1, organization = None, user = None, name = ''Audit'', description = []\<rparr>,
      \<lparr>pk = 2, organization = Some 1, user = None, name = ''Audit'', description = []\<rparr>,
      \<lparr>pk = 3, organization = Some 2, user = None, name = ''Audit'', description = []\<rparr>]
   = [\<lparr>pk = 1, organization = None, user = None, name = ''Audit'', description = []\<rparr>,
      \<lparr>pk = 2, organization = Some 1, user = None, name = ''Audit'', description = []\<rparr>]"
  using visible_to_organization [of "Some blocked_for" 1
      "[\<lparr>pk = 1, organization = None, user = None, name = ''Retail'', description = [],
         blocked_for = {}\<rparr>,
        \<lparr>pk = 2, organization = None, user = None, name = ''Mining'', description = [],
         blocked_for = {1}\<rparr>,
        \<lparr>pk = 3, organization = Some 1, user = None, name = ''Energy'', description = [],
         blocked_for = {2}\<rparr>,
        \<lparr>pk = 4, organization = Some 2, user = None, name = ''Retail'', description = [],
         blocked_for = {}\<rparr>]"]
    visible_to_organization [of None 1
      "[\<lparr>pk = 1, organization = None, user = None, name = ''Audit'', description = []\<rparr>,
        \<lparr>pk = 2, organization = Some 1, user = None, name = ''Audit'', description = []\<rparr>,
        \<lparr>pk = 3, organization = Some 2, user = None, name = ''Audit'', description = []\<rparr>]"]
  by simp

text \<open>
  C3, as the claim has it, fails for a row of the viewer that blocks the viewer: an industry
  of organization 1 that has organization 1 in \<^verbatim>\<open>blocked_for\<close> is owned by organization 1 and
  is not returned to it.
\<close>

theorem own_blocked_row_hidden:
  "visible_to (Some blocked_for) (Some 1)
     [\<lparr>pk = 7, organization = Some 1, user = None, name = ''Retail'', description = [],
       blocked_for = {1}\<rparr>] = []"
  by (simp add: visible_to_def matches_blocked_for_def)

text \<open>
  C4. For no organization, \<open>visible_to\<close> returns exactly the global rows, the block list
  left aside. The code runs \<^verbatim>\<open>exclude(blocked_for=org)\<close> for \<^verbatim>\<open>org=None\<close> as well, on a model
  that has \<^verbatim>\<open>blocked_for\<close>. Of two global industries, one with an empty block list and one
  that blocks organization 9, only the second is returned.
\<close>

theorem global_rows_hidden_from_no_org:
  "visible_to (Some blocked_for) None
     [\<lparr>pk = 1, organization = None, user = None, name = ''Retail'', description = [],
       blocked_for = {}\<rparr>,
      \<lparr>pk = 2, organization = None, user = None, name = ''Mining'', description = [],
       blocked_for = {9}\<rparr>]
   = [\<lparr>pk = 2, organization = None, user = None, name = ''Mining'', description = [],
       blocked_for = {9}\<rparr>]"
  by (simp add: visible_to_def matches_blocked_for_def)

section \<open>Properties of the unique constraint\<close>

lemma create_row_fails_iff:
  "create_row r tbl = Inl IntegrityError \<longleftrightarrow>
     (\<exists>x \<in> set tbl. organization x = organization r \<and> organization r \<noteq> None \<and> name x = name r)"
  by (auto simp add: create_row_def unique_conflict_def)

lemma unique_conflict_append:
  "unique_conflict r (tbl @ [x]) \<longleftrightarrow>
     unique_conflict r tbl
     \<or> (organization x \<noteq> None \<and> organization x = organization r \<and> name x = name r)"
  by (auto simp add: unique_conflict_def)

text \<open>
  C5, as the code has it. Two rows with the same natural key are created one after the other,
  and the second does not collide with a row that was there before. The second creation fails
  with \<^verbatim>\<open>IntegrityError\<close> (the specification's \<^verbatim>\<open>DuplicateInScopeError\<close>) when both rows
  belong to the same organization. It succeeds when they belong to different scopes, and also
  when both are global.
\<close>

theorem create_same_name_twice:
  assumes "create_row r1 tbl = Inr tbl1" and "name r2 = name r1" and "\<not> unique_conflict r2 tbl"
  shows "create_row r2 tbl1 =
           (if organization r2 = organization r1 \<and> organization r1 \<noteq> None
            then Inl IntegrityError
            else Inr (tbl1 @ [r2\<lparr>pk := fresh_pk (map pk tbl1)\<rparr>]))"
proof -
  from assms(1) have tbl1: "tbl1 = tbl @ [r1\<lparr>pk := fresh_pk (map pk tbl)\<rparr>]"
    by (auto simp add: create_row_def split: if_splits)
  show ?thesis
    using assms(2,3)
    by (cases "organization r1"; cases "organization r2")
       (auto simp add: create_row_def tbl1 unique_conflict_append)
qed

text \<open>
  A service "Audit" of organization 4 exists. A second "Audit" of organization 4 is refused;
  an "Audit" of organization 5 is created.
\<close>

theorem create_same_name_twice_witness:
  "create_row \<lparr>pk = 0, organization = Some 4, user = None, name = ''Audit'', description = []\<rparr>
     [\<lparr>pk = 1, organization = Some 4, user = Some 2, name = ''Audit'', description = ''x''\<rparr>]
     = Inl IntegrityError
   \<and> create_row \<lparr>pk = 0, organization = Some 5, user = None, name = ''Audit'', description = []\<rparr>
     [\<lparr>pk = 1, organization = Some 4, user = Some 2, name = ''Audit'', description = ''x''\<rparr>]
     = Inr [\<lparr>pk = 1, organization = Some 4, user = Some 2, name = ''Audit'', description = ''x''\<rparr>,
            \<lparr>pk = 2, organization = Some 5, user = None, name = ''Audit'', description = []\<rparr>]"
proof -
  let ?r1 = "\<lparr>pk = 0, organization = Some 4, user = Some 2, name = ''Audit'', description = ''x''\<rparr>"
  let ?a = "\<lparr>pk = 0, organization = Some 4, user = None, name = ''Audit'', description = []\<rparr>"
  let ?b = "\<lparr>pk = 0, organization = Some 5, user = None, name = ''Audit'', description = []\<rparr>"
  have h1: "create_row ?r1 [] = Inr [?r1\<lparr>pk := 1\<rparr>]"
    by (simp add: create_row_def unique_conflict_def fresh_pk_def)
  have na: "name ?a = name ?r1" and nb: "name ?b = name ?r1" by simp_all
  have ca: "\<not> unique_conflict ?a []" and cb: "\<not> unique_conflict ?b []"
    by (simp_all add: unique_conflict_def)
  from create_same_name_twice [OF h1 na ca] create_same_name_twice [OF h1 nb cb]
  show ?thesis by (simp add: fresh_pk_def)
qed

text \<open>
  C5, as the claim has it, fails in the global scope: a global "Audit" is created, and a
  second global "Audit" is created after it.
\<close>

theorem global_duplicate_created:
  "create_row \<lparr>pk = 0, organization = None, user = None, name = ''Audit'', description = []\<rparr> []
   = Inr [\<lparr>pk = 1, organization = None, user = None, name = ''Audit'', description = []\<rparr>]
   \<and> create_row \<lparr>pk = 0, organization = None, user = None, name = ''Audit'', description = []\<rparr>
     [\<lparr>pk = 1, organization = None, user = None, name = ''Audit'', description = []\<rparr>]
   = Inr [\<lparr>pk = 1, organization = None, user = None, name = ''Audit'', description = []\<rparr>,
          \<lparr>pk = 2, organization = None, user = None, name = ''Audit'', description = []\<rparr>]"
  by (simp add: create_row_def unique_conflict_def fresh_pk_def)

section \<open>Properties of deletion\<close>

text \<open>
  C8, as the code has it. A service, a functional area or a business cycle that a join row
  refers to is not deleted: \<^verbatim>\<open>ProtectedError\<close> (the specification's
  \<^verbatim>\<open>ReferencedRowProtectedError\<close>). Once the join rows that refer to it are removed, a service
  and a functional area are deleted. A business cycle takes its functional areas with it, so it
  is deleted then only if no join row refers to one of its areas, and is protected otherwise.
  Deleting a proposal deletes the proposal and its rows in the three join tables, and no other
  join row.
\<close>

theorem protect_then_delete:
  "((\<exists>j \<in> set (tbl_rfp_service db). sj_service j = Some sid)
      \<longrightarrow> delete_service sid db = Inl ProtectedError)
   \<and> delete_service sid (remove_service_joins sid db)
       = Inr ((remove_service_joins sid db)
               \<lparr>tbl_service := filter (\<lambda>r. pk r \<noteq> sid) (tbl_service db)\<rparr>)
   \<and> ((\<exists>j \<in> set (tbl_rfp_area db). aj_area j = aid)
      \<longrightarrow> delete_functional_area aid db = Inl ProtectedError)
   \<and> delete_functional_area aid (remove_area_joins aid db)
       = Inr ((remove_area_joins aid db)
               \<lparr>tbl_functional_area := filter (\<lambda>r. pk r \<noteq> aid) (tbl_functional_area db)\<rparr>)
   \<and> ((\<exists>j \<in> set (tbl_rfp_business_cycle db). cj_business_cycle j = cid)
      \<longrightarrow> delete_business_cycle cid db = Inl ProtectedError)
   \<and> delete_business_cycle cid (remove_cycle_joins cid db)
       = (if \<exists>j \<in> set (tbl_rfp_area db). aj_area j \<in> set (areas_of_cycle cid db)
          then Inl ProtectedError
          else Inr ((remove_cycle_joins cid db)
                 \<lparr>tbl_business_cycle := filter (\<lambda>r. pk r \<noteq> cid) (tbl_business_cycle db),
                  tbl_functional_area :=
                    filter (\<lambda>a. business_cycle a \<noteq> cid) (tbl_functional_area db)\<rparr>))
   \<and> tbl_rfp_service (delete_generated_rfp rid db)
       = filter (\<lambda>j. sj_generated_rfp j \<noteq> Some rid) (tbl_rfp_service db)
   \<and> tbl_rfp_business_cycle (delete_generated_rfp rid db)
       = filter (\<lambda>j. cj_generated_rfp j \<noteq> rid) (tbl_rfp_business_cycle db)
   \<and> tbl_rfp_area (delete_generated_rfp rid db)
       = filter (\<lambda>j. aj_generated_rfp j \<noteq> rid) (tbl_rfp_area db)
   \<and> tbl_generated_rfp (delete_generated_rfp rid db)
       = filter (\<lambda>p. rfp_pk p \<noteq> rid) (tbl_generated_rfp db)"
proof -
  have s1: "(\<exists>j \<in> set (tbl_rfp_service db). sj_service j = Some sid)
      \<longrightarrow> delete_service sid db = Inl ProtectedError"
    by (simp add: delete_service_def)
  have s2: "delete_service sid (remove_service_joins sid db)
       = Inr ((remove_service_joins sid db)
               \<lparr>tbl_service := filter (\<lambda>r. pk r \<noteq> sid) (tbl_service db)\<rparr>)"
    by (simp add: delete_service_def remove_service_joins_def)
  have a1: "(\<exists>j \<in> set (tbl_rfp_area db). aj_area j = aid)
      \<longrightarrow> delete_functional_area aid db = Inl ProtectedError"
    by (simp add: delete_functional_area_def)
  have a2: "delete_functional_area aid (remove_area_joins aid db)
       = Inr ((remove_area_joins aid db)
               \<lparr>tbl_functional_area := filter (\<lambda>r. pk r \<noteq> aid) (tbl_functional_area db)\<rparr>)"
    by (simp add: delete_functional_area_def remove_area_joins_def)
  have c1: "(\<exists>j \<in> set (tbl_rfp_business_cycle db). cj_business_cycle j = cid)
      \<longrightarrow> delete_business_cycle cid db = Inl ProtectedError"
    by (simp add: delete_business_cycle_def)
  have c2: "delete_business_cycle cid (remove_cycle_joins cid db)
       = (if \<exists>j \<in> set (tbl_rfp_area db). aj_area j \<in> set (areas_of_cycle cid db)
          then Inl ProtectedError
          else Inr ((remove_cycle_joins cid db)
                 \<lparr>tbl_business_cycle := filter (\<lambda>r. pk r \<noteq> cid) (tbl_business_cycle db),
                  tbl_functional_area :=
                    filter (\<lambda>a. business_cycle a \<noteq> cid) (tbl_functional_area db)\<rparr>))"
    by (simp add: delete_business_cycle_def remove_cycle_joins_def areas_of_cycle_def)
  have r: "tbl_rfp_service (delete_generated_rfp rid db)
       = filter (\<lambda>j. sj_generated_rfp j \<noteq> Some rid) (tbl_rfp_service db)"
    "tbl_rfp_business_cycle (delete_generated_rfp rid db)
       = filter (\<lambda>j. cj_generated_rfp j \<noteq> rid) (tbl_rfp_business_cycle db)"
    "tbl_rfp_area (delete_generated_rfp rid db)
       = filter (\<lambda>j. aj_generated_rfp j \<noteq> rid) (tbl_rfp_area db)"
    "tbl_generated_rfp (delete_generated_rfp rid db)
       = filter (\<lambda>p. rfp_pk p \<noteq> rid) (tbl_generated_rfp db)"
    by (simp_all add: delete_generated_rfp_def cascade_rfps_def)
  from s1 s2 a1 a2 c1 c2 r show ?thesis by blast
qed

text \<open>
  In \<open>example_db\<close> proposal 100 refers to service 1, functional area 3 and business cycle 2.
  Each of the three is protected. With its join rows removed each is deleted; cycle 2 takes its
  area 4 with it and leaves area 3 of cycle 5. Deleting proposal 100 empties the join tables.
\<close>

theorem protect_then_delete_witness:
  "delete_service 1 example_db = Inl ProtectedError
   \<and> delete_functional_area 3 example_db = Inl ProtectedError
   \<and> delete_business_cycle 2 example_db = Inl ProtectedError
   \<and> tbl_service (projr (delete_service 1 (remove_service_joins 1 example_db))) = []
   \<and> map pk (tbl_functional_area
        (projr (delete_functional_area 3 (remove_area_joins 3 example_db)))) = [4]
   \<and> map pk (tbl_business_cycle
        (projr (delete_business_cycle 2 (remove_cycle_joins 2 example_db)))) = [5]
   \<and> map pk (tbl_functional_area
        (projr (delete_business_cycle 2 (remove_cycle_joins 2 example_db)))) = [3]
   \<and> tbl_rfp_service (delete_generated_rfp 100 example_db) = []
   \<and> tbl_rfp_business_cycle (delete_generated_rfp 100 example_db) = []
   \<and> tbl_rfp_area (delete_generated_rfp 100 example_db) = []"
  using protect_then_delete [of example_db 1 3 2 100]
  by (simp add: example_db_def empty_db_def example_rfp_def areas_of_cycle_def)

text \<open>
  C8, as the claim has it, fails for a business cycle. In \<open>cycle_db\<close> a proposal refers to
  cycle 2 and to area 3 of cycle 2. Cycle 2 is protected; the one join row that refers to it
  is removed; cycle 2 is protected still, by the join row that refers to its area.
\<close>

theorem cycle_still_protected:
  "delete_business_cycle 2 cycle_db = Inl ProtectedError
   \<and> tbl_rfp_business_cycle (remove_cycle_joins 2 cycle_db) = []
   \<and> delete_business_cycle 2 (remove_cycle_joins 2 cycle_db) = Inl ProtectedError"
  by (simp add: cycle_db_def empty_db_def delete_business_cycle_def remove_cycle_joins_def
      areas_of_cycle_def)

lemma cascade_keeps_catalogue:
  "tbl_industry (cascade_rfps rs db) = tbl_industry db"
  "tbl_service (cascade_rfps rs db) = tbl_service db"
  "tbl_business_cycle (cascade_rfps rs db) = tbl_business_cycle db"
  "tbl_functional_area (cascade_rfps rs db) = tbl_functional_area db"
  "tbl_provider (cascade_rfps rs db) = tbl_provider db"
  by (simp_all add: cascade_rfps_def)

lemma delete_user_rfps:
  "filter (\<lambda>p. rfp_user p = u) (tbl_generated_rfp (delete_user u db)) = []"
  by (auto simp add: delete_user_def Let_def cascade_rfps_def owned_rfps_def filter_empty_conv)

text \<open>
  C10, as the code has it. Deleting a user deletes no row of the five catalogue tables: a row
  the user created stays, with its \<open>user\<close> null and every other field as it was, and a row of
  another creator stays as it was. The proposals of the user do not stay: none is left.
\<close>

theorem delete_user_keeps_catalogue_rows:
  "tbl_industry (delete_user u db)
     = map (\<lambda>r. if user r = Some u then r\<lparr>user := None\<rparr> else r) (tbl_industry db)
   \<and> tbl_service (delete_user u db)
     = map (\<lambda>r. if user r = Some u then r\<lparr>user := None\<rparr> else r) (tbl_service db)
   \<and> tbl_business_cycle (delete_user u db)
     = map (\<lambda>r. if user r = Some u then r\<lparr>user := None\<rparr> else r) (tbl_business_cycle db)
   \<and> tbl_functional_area (delete_user u db)
     = map (\<lambda>r. if user r = Some u then r\<lparr>user := None\<rparr> else r) (tbl_functional_area db)
   \<and> tbl_provider (delete_user u db)
     = map (\<lambda>r. if user r = Some u then r\<lparr>user := None\<rparr> else r) (tbl_provider db)
   \<and> filter (\<lambda>p. rfp_user p = u) (tbl_generated_rfp (delete_user u db)) = []"
proof -
  have "tbl_industry (delete_user u db)
          = map (\<lambda>r. if user r = Some u then r\<lparr>user := None\<rparr> else r) (tbl_industry db)"
    and "tbl_service (delete_user u db)
          = map (\<lambda>r. if user r = Some u then r\<lparr>user := None\<rparr> else r) (tbl_service db)"
    and "tbl_business_cycle (delete_user u db)
          = map (\<lambda>r. if user r = Some u then r\<lparr>user := None\<rparr> else r) (tbl_business_cycle db)"
    and "tbl_functional_area (delete_user u db)
          = map (\<lambda>r. if user r = Some u then r\<lparr>user := None\<rparr> else r) (tbl_functional_area db)"
    and "tbl_provider (delete_user u db)
          = map (\<lambda>r. if user r = Some u then r\<lparr>user := None\<rparr> else r) (tbl_provider db)"
    by (simp_all add: delete_user_def Let_def cascade_keeps_catalogue set_null_user_def)
  with delete_user_rfps [of u db] show ?thesis by simp
qed

text \<open>
  In \<open>example_db\<close> user 1 created service 1 and business cycle 2; user 2 created cycle 5.
\<close>

theorem delete_user_keeps_catalogue_rows_witness:
  "tbl_service (delete_user 1 example_db)
     = [\<lparr>pk = 1, organization = Some 4, user = None, name = ''Audit'', description = ''a''\<rparr>]
   \<and> tbl_business_cycle (delete_user 1 example_db)
     = [\<lparr>pk = 2, organization = None, user = None, name = ''Plan'', description = []\<rparr>,
        \<lparr>pk = 5, organization = None, user = Some 2, name = ''Build'', description = []\<rparr>]
   \<and> filter (\<lambda>p. rfp_user p = 1) (tbl_generated_rfp (delete_user 1 example_db)) = []"
  using delete_user_keeps_catalogue_rows [of 1 example_db]
  by (simp add: example_db_def empty_db_def)

text \<open>
  C10, as the claim has it, fails for a proposal: \<^verbatim>\<open>GeneratedRFP.user\<close> is
  \<^verbatim>\<open>on_delete=CASCADE\<close>. The proposal that user 1 created is deleted with the user, and the
  join rows of the proposal with it.
\<close>

theorem delete_user_deletes_owned_rfp:
  "tbl_generated_rfp example_db = [example_rfp] \<and> rfp_user example_rfp = 1
   \<and> tbl_generated_rfp (delete_user 1 example_db) = []
   \<and> tbl_rfp_area (delete_user 1 example_db) = []"
  by (simp add: example_db_def empty_db_def example_rfp_def delete_user_def Let_def
      cascade_rfps_def owned_rfps_def)

section \<open>Properties of finalizing\<close>

lemma mutate_keeps_snapshots:
  "map snapshot_data (tbl_finalized_rfp (mutate rid m db))
     = map snapshot_data (tbl_finalized_rfp db)"
  by (cases m) (simp_all add: delete_generated_rfp_def cascade_rfps_def comp_def)

lemma mutate_all_keeps_snapshots:
  "map snapshot_data (tbl_finalized_rfp (mutate_all rid ms db))
     = map snapshot_data (tbl_finalized_rfp db)"
  unfolding mutate_all_def
  by (induction ms arbitrary: db) (simp_all add: mutate_keeps_snapshots)

text \<open>
  C7. A successful \<open>finalize p\<close> creates one finalized proposal \<open>f\<close>, after those that were
  there. Its snapshot is the content of \<open>p\<close> at the time of the call and its source is \<open>p\<close>.
  Whatever is done to \<open>p\<close> afterwards, in any number of steps (services, business cycles or
  areas added or removed, the row saved with other values, the proposal deleted), the
  snapshots of the finalized proposals are the ones that were there before, followed by the
  content of \<open>p\<close> at the time of the call.
\<close>

theorem finalize_snapshot_frozen:
  assumes "finalize p db = Inr (f, db')"
  shows "snapshot_data f = rfp_content p db
       \<and> source_rfp f = Some (rfp_pk p)
       \<and> tbl_finalized_rfp db' = tbl_finalized_rfp db @ [f]
       \<and> map snapshot_data (tbl_finalized_rfp (mutate_all (rfp_pk p) ms db'))
           = map snapshot_data (tbl_finalized_rfp db) @ [rfp_content p db]"
proof -
  from assms obtain org where org: "rfp_organization p = Some org"
    by (auto simp add: finalize_def split: option.splits)
  from assms org have f: "snapshot_data f = rfp_content p db" "source_rfp f = Some (rfp_pk p)"
    and db': "db' = db\<lparr>tbl_finalized_rfp := tbl_finalized_rfp db @ [f]\<rparr>"
    by (auto simp add: finalize_def Let_def)
  from db' have tbl: "tbl_finalized_rfp db' = tbl_finalized_rfp db @ [f]" by simp
  from f tbl show ?thesis by (simp add: mutate_all_keeps_snapshots)
qed

lemma finalize_example:
  "finalize example_rfp example_db
     = Inr (example_final, example_db\<lparr>tbl_finalized_rfp := [example_final]\<rparr>)"
  by (simp add: finalize_def example_rfp_def example_db_def empty_db_def example_final_def
      rfp_content_def services_of_def business_cycles_of_def areas_of_def priority_json_def
      fresh_pk_def List.map_filter_def Let_def)

lemma finalize_without_organization:
  "rfp_organization p = None \<Longrightarrow> finalize p db = Inl MissingOwnerError"
  by (simp add: finalize_def)

text \<open>
  Proposal 100 of \<open>example_db\<close> is finalized with service 1. Then service 9 is added, service
  1 is removed and the proposal is deleted: the proposal's services have become \<open>[9]\<close>, and
  the one snapshot is the content of the proposal as it was finalized.
\<close>

theorem finalize_snapshot_frozen_witness:
  "map snapshot_data
     (tbl_finalized_rfp
        (mutate_all 100 [ServicesAdd 9, ServicesRemove 1, Delete]
           (example_db\<lparr>tbl_finalized_rfp := [example_final]\<rparr>)))
     = [rfp_content example_rfp example_db]
   \<and> snapshot_data example_final = rfp_content example_rfp example_db
   \<and> services_of 100 example_db = [1]
   \<and> services_of 100 (mutate_all 100 [ServicesAdd 9, ServicesRemove 1]
           (example_db\<lparr>tbl_finalized_rfp := [example_final]\<rparr>)) = [9]"
proof -
  have "services_of 100 example_db = [1]"
    by (simp add: services_of_def example_db_def empty_db_def List.map_filter_def)
  moreover have "services_of 100 (mutate_all 100 [ServicesAdd 9, ServicesRemove 1]
           (example_db\<lparr>tbl_finalized_rfp := [example_final]\<rparr>)) = [9]"
    by (simp add: mutate_all_def services_of_def example_db_def empty_db_def List.map_filter_def)
  moreover have "tbl_finalized_rfp example_db = []"
    by (simp add: example_db_def empty_db_def)
  ultimately show ?thesis
    using finalize_snapshot_frozen [OF finalize_example,
        of "[ServicesAdd 9, ServicesRemove 1, Delete]"]
    by (simp add: example_rfp_def)
qed

end
